theory Spec2Isabelle
  imports Main "HOL-Library.Sublist" "HOL-Library.List_Lexorder"
begin

section \<open>Text: Python strings as sequences of code points\<close>

text \<open>
  A Python \<open>str\<close> is a sequence of Unicode code points, and \<open>len\<close>, slicing and
  \<open>startswith\<close> count code points. A text is therefore a list of natural numbers;
  \<open>U\<close> turns an ASCII literal into such a text, and the accented letters of the
  program's literals are written by code point.
\<close>

type_synonym ustr = "nat list"

definition U :: "string \<Rightarrow> ustr" where
  "U s = map of_char s"

subsection \<open>The character tables of the runtime\<close>

text \<open>
  The case tables are written out for Basic Latin and Latin-1, and for the code points
  outside them whose case forms are letters of Basic Latin or Latin-1: U+0130, U+0131,
  U+017F, U+212A, U+212B. Every other code point is left as it is; in the Unicode tables
  their case forms stay outside Latin-1, so no pattern of this program can tell the
  difference.
\<close>

definition uni_tolower :: "nat \<Rightarrow> nat" where
  "uni_tolower c =
     (if (0x41 \<le> c \<and> c \<le> 0x5A) \<or> (0xC0 \<le> c \<and> c \<le> 0xDE \<and> c \<noteq> 0xD7) then c + 32
      else if c = 0x130 then 0x69
      else if c = 0x212A then 0x6B
      else if c = 0x212B then 0xE5
      else c)"

definition uni_toupper :: "nat \<Rightarrow> nat" where
  "uni_toupper c =
     (if (0x61 \<le> c \<and> c \<le> 0x7A) \<or> (0xE0 \<le> c \<and> c \<le> 0xFE \<and> c \<noteq> 0xF7) then c - 32
      else if c = 0xB5 then 0x39C
      else if c = 0xFF then 0x178
      else if c = 0x131 then 0x49
      else if c = 0x17F then 0x53
      else c)"

definition uni_iscased :: "nat \<Rightarrow> bool" where
  "uni_iscased c = (c \<noteq> uni_tolower c \<or> c \<noteq> uni_toupper c)"

text \<open>
  \<open>str.lower()\<close> uses the full case mapping: U+0130 becomes two code points.
\<close>

definition lower_cp :: "nat \<Rightarrow> ustr" where
  "lower_cp c = (if c = 0x130 then [0x69, 0x307] else [uni_tolower c])"

definition py_lower :: "ustr \<Rightarrow> ustr" where
  "py_lower s = concat (map lower_cp s)"

text \<open>
  The decimal digits (category Nd) come in runs of ten; the list names the zero of each
  run. \<open>\d\<close> of a \<open>str\<close> pattern matches all of them, and \<open>int\<close> reads all of
  them.
\<close>

definition nd_zeros :: "nat list" where
  "nd_zeros =
     [0x30, 0x660, 0x6F0, 0x7C0, 0x966, 0x9E6, 0xA66, 0xAE6, 0xB66, 0xBE6, 0xC66, 0xCE6,
      0xD66, 0xDE6, 0xE50, 0xED0, 0xF20, 0x1040, 0x1090, 0x17E0, 0x1810, 0x1946, 0x19D0,
      0x1A80, 0x1A90, 0x1B50, 0x1BB0, 0x1C40, 0x1C50, 0xA620, 0xA8D0, 0xA900, 0xA9D0,
      0xA9F0, 0xAA50, 0xABF0, 0xFF10, 0x104A0, 0x10D30, 0x11066, 0x110F0, 0x11136,
      0x111D0, 0x112F0, 0x11450, 0x114D0, 0x11650, 0x116C0, 0x11730, 0x118E0, 0x11950,
      0x11C50, 0x11D50, 0x11DA0, 0x16A60, 0x16AC0, 0x16B50, 0x1D7CE, 0x1D7D8, 0x1D7E2,
      0x1D7EC, 0x1D7F6, 0x1E140, 0x1E2F0, 0x1E950, 0x1FBF0]"

definition uni_isdecimal :: "nat \<Rightarrow> bool" where
  "uni_isdecimal c = list_ex (\<lambda>z. z \<le> c \<and> c \<le> z + 9) nd_zeros"

definition uni_decimal :: "nat \<Rightarrow> nat" where
  "uni_decimal c = (case find (\<lambda>z. z \<le> c \<and> c \<le> z + 9) nd_zeros of Some z \<Rightarrow> c - z | None \<Rightarrow> 0)"

text \<open>White space: the code points that \<open>str.strip()\<close> removes and \<open>\s\<close> matches.\<close>

definition uni_isspace :: "nat \<Rightarrow> bool" where
  "uni_isspace c =
     ((0x09 \<le> c \<and> c \<le> 0x0D) \<or> (0x1C \<le> c \<and> c \<le> 0x20) \<or> c = 0x85 \<or> c = 0xA0
      \<or> c = 0x1680 \<or> (0x2000 \<le> c \<and> c \<le> 0x200A) \<or> c = 0x2028 \<or> c = 0x2029
      \<or> c = 0x202F \<or> c = 0x205F \<or> c = 0x3000)"

subsection \<open>String methods\<close>

definition py_strip :: "ustr \<Rightarrow> ustr" where
  "py_strip s = rev (dropWhile uni_isspace (rev (dropWhile uni_isspace s)))"

definition startswith :: "ustr \<Rightarrow> ustr \<Rightarrow> bool" where
  "startswith s p = prefix p s"

text \<open>\<open>sub in s\<close>: \<open>sub\<close> occurs in \<open>s\<close> as a contiguous run.\<close>

fun py_in :: "ustr \<Rightarrow> ustr \<Rightarrow> bool" where
  "py_in sub [] = (sub = [])"
| "py_in sub (c # cs) = (prefix sub (c # cs) \<or> py_in sub cs)"

text \<open>\<open>s.split('\n')\<close>: the pieces between line feeds; never the empty list.\<close>

fun split_lines :: "ustr \<Rightarrow> ustr list" where
  "split_lines [] = [[]]"
| "split_lines (c # cs) =
     (if c = 0x0A then [] # split_lines cs
      else (case split_lines cs of [] \<Rightarrow> [[c]] | l # ls \<Rightarrow> (c # l) # ls))"

text \<open>
  \<open>s.replace(old, "")\<close>: the occurrences of \<open>old\<close> are removed from left to right,
  without overlap. An empty \<open>old\<close> leaves the text as it is.
\<close>

fun replace_by_empty :: "ustr \<Rightarrow> ustr \<Rightarrow> ustr" where
  "replace_by_empty old [] = []"
| "replace_by_empty old (c # cs) =
     (if old \<noteq> [] \<and> prefix old (c # cs)
      then replace_by_empty old (drop (length old - 1) cs)
      else c # replace_by_empty old cs)"

section \<open>Regular expressions under IGNORECASE\<close>

text \<open>
  The patterns of the program use literal characters, \<open>\d\<close>, \<open>\s\<close>, the dot,
  character ranges of digits, alternatives of fixed length, and the repetitions \<open>+\<close>
  and \<open>+?\<close> of a single character class. The matcher is the backtracking one of the
  \<open>re\<close> module, as a list of successes in the order in which backtracking finds them:
  the first element is the match that \<open>re\<close> reports.
\<close>

datatype atom =
    Lit nat
  | Rng nat nat
  | Dec
  | Spc
  | Dot

datatype rx =
    One atom
  | Plus atom
  | LazyPlus atom
  | Alt "atom list list"

text \<open>
  A cased literal is compiled to its lowercase form and compared with the lowercase form
  of the text's character; letters whose lowercase forms differ but whose uppercase forms
  agree (i and dotless i, s and long s) are matched through a table of such pairs.
\<close>

definition sre_fixes :: "nat \<Rightarrow> nat list" where
  "sre_fixes lo =
     (if lo = 0x69 then [0x131] else if lo = 0x131 then [0x69]
      else if lo = 0x73 then [0x17F] else if lo = 0x17F then [0x73] else [])"

definition lit_ci :: "nat \<Rightarrow> nat \<Rightarrow> bool" where
  "lit_ci p c =
     (if \<not> uni_iscased p then c = p
      else uni_tolower c = uni_tolower p \<or> uni_tolower c \<in> set (sre_fixes (uni_tolower p)))"

fun atom_ok :: "atom \<Rightarrow> nat \<Rightarrow> bool" where
  "atom_ok (Lit p) c = lit_ci p c"
| "atom_ok (Rng lo hi) c = (lo \<le> c \<and> c \<le> hi)"
| "atom_ok Dec c = uni_isdecimal c"
| "atom_ok Spc c = uni_isspace c"
| "atom_ok Dot c = (c \<noteq> 0x0A)"

text \<open>A fixed sequence of atoms at the start of the text: what it consumed, and the rest.\<close>

fun atoms_match :: "atom list \<Rightarrow> ustr \<Rightarrow> (ustr \<times> ustr) option" where
  "atoms_match [] s = Some ([], s)"
| "atoms_match (a # as) [] = None"
| "atoms_match (a # as) (c # cs) =
     (if atom_ok a c
      then (case atoms_match as cs of None \<Rightarrow> None | Some (m, r) \<Rightarrow> Some (c # m, r))
      else None)"

text \<open>The ways to consume one or more characters of a class, the shortest first.\<close>

fun spans :: "atom \<Rightarrow> ustr \<Rightarrow> (ustr \<times> ustr) list" where
  "spans a [] = []"
| "spans a (c # cs) =
     (if atom_ok a c then ([c], cs) # map (\<lambda>(m, r). (c # m, r)) (spans a cs) else [])"

fun rx_elem :: "rx \<Rightarrow> ustr \<Rightarrow> (ustr \<times> ustr) list" where
  "rx_elem (One a) s = (case atoms_match [a] s of None \<Rightarrow> [] | Some mr \<Rightarrow> [mr])"
| "rx_elem (Plus a) s = rev (spans a s)"
| "rx_elem (LazyPlus a) s = spans a s"
| "rx_elem (Alt alts) s = List.map_filter (\<lambda>alt. atoms_match alt s) alts"

text \<open>
  A pattern is a sequence of elements. A success is the list of the texts consumed by
  each element, with the rest of the input.
\<close>

fun rx_run :: "rx list \<Rightarrow> ustr \<Rightarrow> (ustr list \<times> ustr) list" where
  "rx_run [] s = [([], s)]"
| "rx_run (r # rs) s =
     concat (map (\<lambda>(m, s'). map (\<lambda>(ms, s''). (m # ms, s'')) (rx_run rs s')) (rx_elem r s))"

definition re_match :: "rx list \<Rightarrow> ustr \<Rightarrow> (ustr list \<times> ustr) option" where
  "re_match p s = (case rx_run p s of [] \<Rightarrow> None | m # _ \<Rightarrow> Some m)"

text \<open>\<open>re.search\<close>: the match at the leftmost position that has one.\<close>

fun re_search :: "rx list \<Rightarrow> ustr \<Rightarrow> (ustr list \<times> ustr) option" where
  "re_search p [] = re_match p []"
| "re_search p (c # cs) =
     (case re_match p (c # cs) of Some m \<Rightarrow> Some m | None \<Rightarrow> re_search p cs)"

definition lit :: "ustr \<Rightarrow> rx list" where
  "lit s = map (\<lambda>c. One (Lit c)) s"

section \<open>LogParser\<close>

subsection \<open>The pattern tables\<close>

definition execution_header_pattern :: "rx list" where
  "execution_header_pattern =
     lit (U ''=== Execu'' @ [0xE7, 0xE3] @ U ''o: '') @ [LazyPlus Dot] @ lit (U '' ==='')"

definition success_patterns :: "rx list list" where
  "success_patterns =
     [lit (U ''Data da '' @ [0xFA] @ U ''ltima atualiza'' @ [0xE7, 0xE3]
           @ U ''o inserida na tabela de controle (sucesso)''),
      lit (U ''Linhas afetadas: '') @ [Plus Dec],
      lit (U ''Nova linha inserida na tabela CONTROL com sucesso''),
      lit (U ''Conex'' @ [0xE3] @ U ''o aberta com sucesso''),
      lit (U ''Finalizado sem erros''),
      lit (U ''conclu'' @ [0xED] @ U ''da com sucesso''),
      lit (U ''processados com sucesso'')]"

definition failure_patterns :: "rx list list" where
  "failure_patterns =
     [lit (U ''Erro:''), lit (U ''Falha:''), lit (U ''Exception:''), lit (U ''Error:''),
      lit (U ''Timeout''), lit (U ''falhou''), lit (U ''erro'')]"

definition pending_patterns :: "rx list list" where
  "pending_patterns =
     [lit (U ''Processamento iniciado''), lit (U ''Iniciando''), lit (U ''Aguardando''),
      lit (U ''Processando'')]"

subsection \<open>determine_status\<close>

text \<open>
  Each loop over a pattern table returns at the first pattern that is found anywhere in
  the text. The status values are the ASCII literals of the source.
\<close>

definition matches_any :: "rx list list \<Rightarrow> ustr \<Rightarrow> bool" where
  "matches_any ps s = list_ex (\<lambda>p. re_search p s \<noteq> None) ps"

definition determine_status :: "ustr \<Rightarrow> string" where
  "determine_status log_content =
     (let log_lower = py_lower log_content in
      if matches_any success_patterns log_content then ''OK''
      else if matches_any failure_patterns log_content then ''FAIL''
      else if matches_any pending_patterns log_content then ''PENDING''
      else if \<not> py_in (U ''erro'') log_lower \<and> \<not> py_in (U ''error'') log_lower then ''OK''
      else ''FAIL'')"

subsection \<open>Dates\<close>

text \<open>
  A \<open>datetime\<close> object holds a valid date of the proleptic Gregorian calendar and a valid
  time of day. Its constructor raises \<open>ValueError\<close> on any other field; here \<open>None\<close>.
\<close>

record datetime =
  dt_year :: nat
  dt_month :: nat
  dt_day :: nat
  dt_hour :: nat
  dt_minute :: nat
  dt_second :: nat

definition is_leap :: "nat \<Rightarrow> bool" where
  "is_leap y = (y mod 4 = 0 \<and> (y mod 100 \<noteq> 0 \<or> y mod 400 = 0))"

definition days_in_month :: "nat \<Rightarrow> nat \<Rightarrow> nat" where
  "days_in_month y m =
     (if m = 2 then (if is_leap y then 29 else 28)
      else if m = 4 \<or> m = 6 \<or> m = 9 \<or> m = 11 then 30 else 31)"

definition new_datetime :: "nat \<Rightarrow> nat \<Rightarrow> nat \<Rightarrow> nat \<Rightarrow> nat \<Rightarrow> nat \<Rightarrow> datetime option" where
  "new_datetime y mo d h mi s =
     (if 1 \<le> y \<and> y \<le> 9999 \<and> 1 \<le> mo \<and> mo \<le> 12 \<and> 1 \<le> d \<and> d \<le> days_in_month y mo
         \<and> h \<le> 23 \<and> mi \<le> 59 \<and> s \<le> 59
      then Some \<lparr>dt_year = y, dt_month = mo, dt_day = d,
                 dt_hour = h, dt_minute = mi, dt_second = s\<rparr>
      else None)"

text \<open>
  \<open>strftime("%Y-%m-%d %H:%M:%S")\<close>: every field as a zero-padded decimal number, four
  digits for the year and two for the others, as the library documents the directives.
  (A C library that leaves years below 1000 unpadded is outside this model.)
\<close>

definition pad2 :: "nat \<Rightarrow> ustr" where
  "pad2 n = [0x30 + n div 10 mod 10, 0x30 + n mod 10]"

definition pad4 :: "nat \<Rightarrow> ustr" where
  "pad4 n = [0x30 + n div 1000 mod 10, 0x30 + n div 100 mod 10,
             0x30 + n div 10 mod 10, 0x30 + n mod 10]"

definition strftime :: "datetime \<Rightarrow> ustr" where
  "strftime dt =
     pad4 (dt_year dt) @ U ''-'' @ pad2 (dt_month dt) @ U ''-'' @ pad2 (dt_day dt) @ U '' ''
     @ pad2 (dt_hour dt) @ U '':'' @ pad2 (dt_minute dt) @ U '':'' @ pad2 (dt_second dt)"

text \<open>
  \<open>strptime\<close> turns the format into a regular expression, one group per directive and
  \<open>\s+\<close> for each blank of the format, matches it at the start of the string under
  IGNORECASE, and raises \<open>ValueError\<close> when nothing matches, when the match does not
  reach the end of the string, when a name is not in the locale's table, and when the
  fields do not make a date. The names are those of the C locale.
\<close>

definition words :: "string list \<Rightarrow> rx" where
  "words ws = Alt (map (\<lambda>w. map Lit (U w)) ws)"

definition a_weekday :: "string list" where
  "a_weekday = [''mon'', ''tue'', ''wed'', ''thu'', ''fri'', ''sat'', ''sun'']"

definition a_month :: "string list" where
  "a_month = [ [], ''jan'', ''feb'', ''mar'', ''apr'', ''may'', ''jun'', ''jul'', ''aug'',
              ''sep'', ''oct'', ''nov'', ''dec'']"

definition am_pm :: "string list" where
  "am_pm = [''am'', ''pm'']"

definition re_a :: rx where
  "re_a = words a_weekday"

definition re_b :: rx where
  "re_b = words (tl a_month)"

definition re_p :: rx where
  "re_p = words am_pm"

definition re_d :: rx where
  "re_d = Alt [ [Lit 0x33, Rng 0x30 0x31], [Rng 0x31 0x32, Dec], [Lit 0x30, Rng 0x31 0x39],
               [Rng 0x31 0x39], [Lit 0x20, Rng 0x31 0x39]]"

definition re_I :: rx where
  "re_I = Alt [ [Lit 0x31, Rng 0x30 0x32], [Lit 0x30, Rng 0x31 0x39], [Rng 0x31 0x39]]"

definition re_m :: rx where
  "re_m = Alt [ [Lit 0x31, Rng 0x30 0x32], [Lit 0x30, Rng 0x31 0x39], [Rng 0x31 0x39]]"

definition re_M :: rx where
  "re_M = Alt [ [Rng 0x30 0x35, Dec], [Dec]]"

definition re_S :: rx where
  "re_S = Alt [ [Lit 0x36, Rng 0x30 0x31], [Rng 0x30 0x35, Dec], [Dec]]"

definition re_Y :: rx where
  "re_Y = Alt [ [Dec, Dec, Dec, Dec]]"

definition re_ws :: rx where
  "re_ws = Plus Spc"

text \<open>The format \<open>%a %b %d %I:%M:%S %p %Y\<close>.\<close>

definition format_1 :: "rx list" where
  "format_1 = [re_a, re_ws, re_b, re_ws, re_d, re_ws, re_I, One (Lit 0x3A), re_M,
               One (Lit 0x3A), re_S, re_ws, re_p, re_ws, re_Y]"

text \<open>The format \<open>%m/%d/%Y %I:%M:%S %p\<close>.\<close>

definition format_2 :: "rx list" where
  "format_2 = [re_m, One (Lit 0x2F), re_d, One (Lit 0x2F), re_Y, re_ws, re_I, One (Lit 0x3A),
               re_M, One (Lit 0x3A), re_S, re_ws, re_p]"

text \<open>The text consumed by the element at position \<open>k\<close> of the pattern.\<close>

definition group :: "nat \<Rightarrow> ustr list \<Rightarrow> ustr" where
  "group k gs = (case drop k gs of [] \<Rightarrow> [] | g # _ \<Rightarrow> g)"

text \<open>\<open>int\<close> of a string of decimal digits, blanks around it ignored.\<close>

definition py_int :: "ustr \<Rightarrow> nat" where
  "py_int s = foldl (\<lambda>a c. 10 * a + uni_decimal c) 0 (py_strip s)"

text \<open>\<open>list.index\<close>, which raises \<open>ValueError\<close> when the element is absent.\<close>

fun index_of :: "ustr \<Rightarrow> ustr list \<Rightarrow> nat option" where
  "index_of x [] = None"
| "index_of x (y # ys) = (if x = y then Some 0 else map_option Suc (index_of x ys))"

text \<open>The hour of a twelve-hour clock with its AM/PM mark.\<close>

definition hour_12 :: "nat \<Rightarrow> ustr \<Rightarrow> nat" where
  "hour_12 h ampm =
     (if ampm = [] \<or> ampm = U ''am'' then (if h = 12 then 0 else h)
      else if ampm = U ''pm'' then (if h \<noteq> 12 then h + 12 else h)
      else h)"

definition strptime_1 :: "ustr \<Rightarrow> datetime option" where
  "strptime_1 data_string =
     (case re_match format_1 data_string of
        None \<Rightarrow> None
      | Some (found, rest) \<Rightarrow>
          if rest \<noteq> [] then None
          else (case index_of (py_lower (group 0 found)) (map U a_weekday) of
                  None \<Rightarrow> None
                | Some weekday \<Rightarrow>
                   (case index_of (py_lower (group 2 found)) (map U a_month) of
                      None \<Rightarrow> None
                    | Some month \<Rightarrow>
                        new_datetime (py_int (group 14 found)) month (py_int (group 4 found))
                          (hour_12 (py_int (group 6 found)) (py_lower (group 12 found)))
                          (py_int (group 8 found)) (py_int (group 10 found)))))"

definition strptime_2 :: "ustr \<Rightarrow> datetime option" where
  "strptime_2 data_string =
     (case re_match format_2 data_string of
        None \<Rightarrow> None
      | Some (found, rest) \<Rightarrow>
          if rest \<noteq> [] then None
          else new_datetime (py_int (group 4 found)) (py_int (group 0 found))
                 (py_int (group 2 found))
                 (hour_12 (py_int (group 6 found)) (py_lower (group 12 found)))
                 (py_int (group 8 found)) (py_int (group 10 found)))"

subsection \<open>parse_execution_date\<close>

text \<open>
  The date is looked for only inside the execution header. The first group of the header
  pattern is the text consumed by \<open>(.+?)\<close>, the fifteenth element of the pattern.
\<close>

definition parse_execution_date :: "ustr \<Rightarrow> ustr option" where
  "parse_execution_date log_content =
     (case re_search execution_header_pattern log_content of
        None \<Rightarrow> None
      | Some (groups, rest) \<Rightarrow>
          (let date_str = py_strip (group 14 groups);
               date_str_clean = replace_by_empty (U '' -03'') date_str
           in case strptime_1 date_str_clean of
                Some parsed_date \<Rightarrow> Some (strftime parsed_date)
              | None \<Rightarrow>
                 (case strptime_2 date_str of
                    Some parsed_date \<Rightarrow> Some (strftime parsed_date)
                  | None \<Rightarrow> None)))"

subsection \<open>extract_key_info\<close>

text \<open>
  The dictionary \<open>info\<close> has the key \<open>status\<close> always, and the keys \<open>execution_date\<close>
  and \<open>message\<close> when the field is \<open>Some\<close>.
\<close>

record key_info =
  execution_date :: "ustr option"
  status :: string
  message :: "ustr option"

fun first_message :: "ustr list \<Rightarrow> ustr option" where
  "first_message [] = None"
| "first_message (l # ls) =
     (let line = py_strip l in
      if line \<noteq> [] \<and> \<not> startswith line (U ''==='') \<and> \<not> startswith line (U ''lsfnjdn'')
      then (if length line > 10
            then Some (if length line > 100 then take 100 line @ U ''...'' else line)
            else first_message ls)
      else first_message ls)"

definition extract_key_info :: "ustr \<Rightarrow> key_info" where
  "extract_key_info log_content =
     \<lparr>execution_date =
        (case parse_execution_date log_content of
           None \<Rightarrow> None
         | Some exec_date \<Rightarrow> if exec_date \<noteq> [] then Some exec_date else None),
      status = determine_status log_content,
      message = first_message (split_lines log_content)\<rparr>"

section \<open>AutomationCLI: the two tables\<close>

text \<open>
  The table \<open>automations\<close> has the job name as primary key; the table \<open>logs\<close> grows at
  its end. Both timestamp columns hold text, and SQLite compares text byte by byte,
  which on UTF-8 is the lexicographic order of the code points.
\<close>

record automation_row =
  schedule :: ustr
  behavior :: ustr
  last_status :: string
  last_run :: "ustr option"

record log_row =
  automation :: ustr
  timestamp :: ustr
  log_status :: string
  log_message :: ustr

record db =
  automations :: "ustr \<rightharpoonup> automation_row"
  logs :: "log_row list"

definition empty_db :: db where
  "empty_db = \<lparr>automations = Map.empty, logs = []\<rparr>"

subsection \<open>seed_mock_data\<close>

definition mock_automations :: "(ustr \<times> ustr \<times> ustr) list" where
  "mock_automations =
     [(U ''C1'', U ''0 8 * * *'',
       U ''Import de Vendas - Execu'' @ [0xE7, 0xE3] @ U ''o di'' @ [0xE1] @ U ''ria''),
      (U ''CAT1'', U ''0 8 * * *'',
       U ''Categoriza'' @ [0xE7, 0xE3] @ U ''o - Execu'' @ [0xE7, 0xE3] @ U ''o di'' @ [0xE1] @ U ''ria''),
      (U ''NC1'', U ''0 8 * * *'',
       U ''Notas de Cr'' @ [0xE9] @ U ''dito - Execu'' @ [0xE7, 0xE3] @ U ''o di'' @ [0xE1] @ U ''ria''),
      (U ''PG1'', U ''0 8 * * *'',
       U ''Pagamentos - Execu'' @ [0xE7, 0xE3] @ U ''o di'' @ [0xE1] @ U ''ria''),
      (U ''PR2'', U ''0 8 * * *'',
       U ''Processamento de Pedidos 2 - Execu'' @ [0xE7, 0xE3] @ U ''o di'' @ [0xE1] @ U ''ria''),
      (U ''CR1'', U ''0 8-17 * * *'',
       U ''Controle de Receitas - A cada hora''),
      (U ''NF1'', U ''0 8-17 * * *'',
       U ''Notas Fiscais 1 - A cada hora''),
      (U ''NF2'', U ''0 8-17 * * *'',
       U ''Notas Fiscais 2 - A cada hora''),
      (U ''P1'', U ''0 8-17 * * *'',
       U ''Produtos 1 - A cada hora''),
      (U ''P2'', U ''0 8-17 * * *'',
       U ''Produtos 2 - A cada hora''),
      (U ''EM1'', U ''0 8,11,14,17 * * *'',
       U ''Estoque e Movimenta'' @ [0xE7, 0xE3] @ U ''o - A cada 1h30''),
      (U ''EM1'', U ''30 9,12,15 * * *'',
       U ''Estoque e Movimenta'' @ [0xE7, 0xE3] @ U ''o - A cada 1h30''),
      (U ''ODC1'', U ''0 8,10,12,14,16 * * *'',
       U ''Ordens de Compra 1 - A cada 2h''),
      (U ''ODC2'', U ''0 8,10,12,14,16 * * *'',
       U ''Ordens de Compra 2 - A cada 2h''),
      (U ''ORC1'', U ''0 8,10,12,14,16 * * *'',
       U ''Ordens de Recebimento - A cada 2h''),
      (U ''PR1'', U ''0 8,10,12,14,16 * * *'',
       U ''Processamento de Pedidos 1 - A cada 2h''),
      (U ''V1'', U ''0 9 * * *'',
       U ''Valida'' @ [0xE7, 0xE3] @ U ''o - Execu'' @ [0xE7, 0xE3] @ U ''o di'' @ [0xE1] @ U ''ria'')]"

definition mock_logs :: "(ustr \<times> ustr \<times> string \<times> ustr) list" where
  "mock_logs =
     [(U ''C1'', U ''2025-08-29 08:00:00'', ''OK'',
       U ''Import de vendas conclu'' @ [0xED] @ U ''do. 156 registros processados''),
      (U ''C1'', U ''2025-08-28 08:00:00'', ''OK'',
       U ''Import de vendas conclu'' @ [0xED] @ U ''do. 142 registros processados''),
      (U ''CAT1'', U ''2025-08-29 08:00:00'', ''OK'',
       U ''Categoriza'' @ [0xE7, 0xE3] @ U ''o conclu'' @ [0xED] @ U ''da. 89 produtos categorizados''),
      (U ''CR1'', U ''2025-08-29 10:00:01'', ''OK'',
       U ''Conta inserida/atualizada com sucesso na tabela CR1!''),
      (U ''CR1'', U ''2025-08-29 09:00:01'', ''OK'',
       U ''Conta inserida/atualizada com sucesso na tabela CR1!''),
      (U ''CR1'', U ''2025-08-29 08:00:01'', ''OK'',
       U ''Conta inserida/atualizada com sucesso na tabela CR1!''),
      (U ''NF1'', U ''2025-08-29 10:00:00'', ''OK'',
       U ''15 notas fiscais processadas com sucesso''),
      (U ''NF1'', U ''2025-08-29 09:00:00'', ''OK'',
       U ''12 notas fiscais processadas com sucesso''),
      (U ''NF2'', U ''2025-08-29 10:00:00'', ''OK'',
       U ''8 notas fiscais processadas com sucesso''),
      (U ''NF2'', U ''2025-08-29 09:00:00'', ''FAIL'',
       U ''Erro: Falha na valida'' @ [0xE7, 0xE3] @ U ''o de dados''),
      (U ''EM1'', U ''2025-08-29 09:30:00'', ''OK'',
       U ''Movimenta'' @ [0xE7, 0xE3] @ U ''o de estoque conclu'' @ [0xED] @ U ''da. 45 itens atualizados''),
      (U ''EM1'', U ''2025-08-29 08:00:00'', ''OK'',
       U ''Movimenta'' @ [0xE7, 0xE3] @ U ''o de estoque conclu'' @ [0xED] @ U ''da. 38 itens atualizados''),
      (U ''ODC1'', U ''2025-08-29 10:00:00'', ''OK'',
       U ''Ordens de compra processadas. 12 ordens criadas''),
      (U ''ODC1'', U ''2025-08-29 08:00:00'', ''OK'',
       U ''Ordens de compra processadas. 8 ordens criadas''),
      (U ''V1'', U ''2025-08-29 09:00:00'', ''OK'',
       U ''Valida'' @ [0xE7, 0xE3] @ U ''o conclu'' @ [0xED] @ U ''da. 0 inconsist'' @ [0xEA] @ U ''ncias encontradas'')]"

text \<open>\<open>INSERT OR REPLACE INTO automations\<close>, with status NONE and no last run.\<close>

definition insert_or_replace :: "db \<Rightarrow> ustr \<times> ustr \<times> ustr \<Rightarrow> db" where
  "insert_or_replace d a =
     (case a of (name, sched, behav) \<Rightarrow>
        d\<lparr>automations := (automations d)(name \<mapsto>
             \<lparr>schedule = sched, behavior = behav, last_status = ''NONE'', last_run = None\<rparr>)\<rparr>)"

definition insert_log :: "db \<Rightarrow> ustr \<times> ustr \<times> string \<times> ustr \<Rightarrow> db" where
  "insert_log d l =
     (case l of (name, ts, st, msg) \<Rightarrow>
        d\<lparr>logs := logs d @
             [\<lparr>automation = name, timestamp = ts, log_status = st, log_message = msg\<rparr>]\<rparr>)"

text \<open>
  \<open>UPDATE automations SET last_status = ?, last_run = ? WHERE name = ? AND
  (last_run IS NULL OR last_run < ?)\<close>.
\<close>

definition update_if_newer :: "db \<Rightarrow> ustr \<times> ustr \<times> string \<times> ustr \<Rightarrow> db" where
  "update_if_newer d l =
     (case l of (name, ts, st, msg) \<Rightarrow>
        (case automations d name of
           None \<Rightarrow> d
         | Some row \<Rightarrow>
             if (case last_run row of None \<Rightarrow> True | Some stored \<Rightarrow> stored < ts)
             then d\<lparr>automations := (automations d)(name \<mapsto>
                      row\<lparr>last_status := st, last_run := Some ts\<rparr>)\<rparr>
             else d))"

definition seed_mock_data :: "db \<Rightarrow> db" where
  "seed_mock_data d =
     foldl update_if_newer
       (foldl insert_log (foldl insert_or_replace d mock_automations) mock_logs)
       mock_logs"

subsection \<open>add_real_log\<close>

text \<open>
  The clock reading \<open>now\<close>, already formatted, is an input. An unknown job name is
  reported and the function returns before it touches a table.
\<close>

datatype outcome = Not_Found | Processed

definition add_real_log :: "ustr \<Rightarrow> db \<Rightarrow> ustr \<Rightarrow> ustr \<Rightarrow> outcome \<times> db" where
  "add_real_log now d automation_name log_content =
     (case automations d automation_name of
        None \<Rightarrow> (Not_Found, d)
      | Some row \<Rightarrow>
          (let info = extract_key_info log_content;
               ts = (case execution_date info of Some t \<Rightarrow> t | None \<Rightarrow> now);
               st = status info;
               msg = (case message info of
                        Some m \<Rightarrow> m
                      | None \<Rightarrow> U ''Log processado automaticamente'')
           in (Processed,
               d\<lparr>logs := logs d @
                    [\<lparr>automation = automation_name, timestamp = ts, log_status = st,
                      log_message = msg\<rparr>],
                  automations := (automations d)(automation_name \<mapsto>
                    row\<lparr>last_status := st, last_run := Some ts\<rparr>)\<rparr>)))"

section \<open>Notions of the specification\<close>




text \<open>The execution header of the sample log, and the same header around a date of the second form.\<close>

definition header_1 :: ustr where
  "header_1 = U ''=== Execu'' @ [0xE7, 0xE3] @ U ''o: Wed Aug 20 09:23:03 AM -03 2025 ===''"

definition header_2 :: ustr where
  "header_2 = U ''=== Execu'' @ [0xE7, 0xE3] @ U ''o: 8/20/2025 9:23:06 AM ===''"

text \<open>
  The message extractor in the words of the specification: a line qualifies when, trimmed,
  it is not empty, does not begin with the decoration or with the noise prefix, and is
  longer than ten characters; a qualifying line is cut after a hundred characters.
\<close>

definition qualifies :: "ustr \<Rightarrow> bool" where
  "qualifies line =
     (line \<noteq> [] \<and> \<not> prefix (U ''==='') line \<and> \<not> prefix (U ''lsfnjdn'') line
      \<and> 10 < length line)"

definition shorten :: "ustr \<Rightarrow> ustr" where
  "shorten line = (if length line \<le> 100 then line else take 100 line @ U ''...'')"

text \<open>The lines of a text, put together again with line feeds.\<close>

fun join_lines :: "ustr list \<Rightarrow> ustr" where
  "join_lines [] = []"
| "join_lines [l] = l"
| "join_lines (l # l' # ls) = l @ 0x0A # join_lines (l' # ls)"

text \<open>
  The tables after the job \<open>C1\<close> was registered and a log of it dated
  \<open>2025-08-29 08:00:00\<close> was recorded and applied, by the three statements of
  \<open>seed_mock_data\<close>.
\<close>

definition registry_C1 :: db where
  "registry_C1 =
     (let l = (U ''C1'', U ''2025-08-29 08:00:00'', ''OK'', U ''Import de vendas finalizado'')
      in update_if_newer
           (insert_log (insert_or_replace empty_db (U ''C1'', U ''0 8 * * *'', U ''Import de Vendas''))
              l) l)"

section \<open>Properties\<close>

subsection \<open>Evaluation and the search\<close>

lemmas ev = U_def uni_tolower_def uni_toupper_def uni_iscased_def lower_cp_def py_lower_def
  nd_zeros_def uni_isdecimal_def uni_decimal_def uni_isspace_def py_strip_def startswith_def
  sre_fixes_def lit_ci_def re_match_def lit_def execution_header_pattern_def
  success_patterns_def failure_patterns_def pending_patterns_def matches_any_def
  determine_status_def List.map_filter_def Let_def

lemma re_match_None_iff: "re_match p s = None \<longleftrightarrow> rx_run p s = []"
  by (simp add: re_match_def split: list.splits)

lemma re_search_here: "rx_run p s \<noteq> [] \<Longrightarrow> re_search p s \<noteq> None"
  by (cases s) (auto simp: re_match_None_iff split: option.splits)

lemma re_search_append: "rx_run p s \<noteq> [] \<Longrightarrow> re_search p (pre @ s) \<noteq> None"
  by (induction pre) (auto simp: re_search_here split: option.splits)

lemma re_search_found: "re_search p t \<noteq> None \<Longrightarrow> \<exists>pre s. t = pre @ s \<and> rx_run p s \<noteq> []"
proof (induction t)
  case Nil
  then show ?case by (auto simp: re_match_None_iff)
next
  case (Cons c cs)
  show ?case
  proof (cases "rx_run p (c # cs) = []")
    case True
    with Cons.prems have "re_search p cs \<noteq> None"
      by (simp add: re_match_None_iff[symmetric])
    with Cons.IH obtain pre s where "cs = pre @ s" "rx_run p s \<noteq> []" by blast
    then have "c # cs = (c # pre) @ s \<and> rx_run p s \<noteq> []" by simp
    then show ?thesis by blast
  next
    case False
    then have "c # cs = [] @ (c # cs) \<and> rx_run p (c # cs) \<noteq> []" by simp
    then show ?thesis by blast
  qed
qed

lemma matches_any_iff: "matches_any ps t \<longleftrightarrow> (\<exists>p \<in> set ps. re_search p t \<noteq> None)"
  by (simp add: matches_any_def list_ex_iff)

lemma matches_anyI: "p \<in> set ps \<Longrightarrow> rx_run p s \<noteq> [] \<Longrightarrow> matches_any ps (pre @ s)"
  unfolding matches_any_iff using re_search_append by blast


lemma U_erro: "U ''erro'' = [101, 114, 114, 111]" "U ''error'' = [101, 114, 114, 111, 114]"
  by (simp_all add: U_def)

lemma rx_run_lit_Nil: "rx_run (lit []) s \<noteq> []"
  by (simp add: lit_def)

lemma rx_run_lit_Cons:
  "rx_run (lit (x # xs)) (c # cs) \<noteq> [] \<longleftrightarrow> lit_ci x c \<and> rx_run (lit xs) cs \<noteq> []"
  by (simp add: lit_def)

lemma lit_ci_lower:
  assumes "x \<in> {101, 114, 111}" and "prefix (x # xs) (lower_cp c @ rest)"
  shows "lit_ci x c \<and> prefix xs rest"
proof (cases "c = 0x130")
  case True
  with assms show ?thesis by (auto simp: lower_cp_def)
next
  case False
  with assms have x: "x = uni_tolower c" and r: "prefix xs rest"
    by (auto simp: lower_cp_def)
  from assms(1) have "uni_iscased x" "uni_tolower x = x"
    by (auto simp: uni_iscased_def uni_tolower_def uni_toupper_def)
  with x r show ?thesis by (simp add: lit_ci_def)
qed

lemma prefix_lower_run:
  "set p \<subseteq> {101, 114, 111} \<Longrightarrow> prefix p (py_lower s) \<Longrightarrow> rx_run (lit p) s \<noteq> []"
proof (induction p arbitrary: s)
  case Nil
  show ?case by (rule rx_run_lit_Nil)
next
  case (Cons x xs)
  show ?case
  proof (cases s)
    case Nil
    with Cons.prems show ?thesis by (simp add: py_lower_def)
  next
    case (Cons c cs)
    with Cons.prems have "prefix (x # xs) (lower_cp c @ py_lower cs)" "x \<in> {101, 114, 111}"
      by (simp_all add: py_lower_def)
    with lit_ci_lower have "lit_ci x c" "prefix xs (py_lower cs)" by blast+
    with Cons.IH Cons.prems(1) have "lit_ci x c \<and> rx_run (lit xs) cs \<noteq> []" by simp
    then have "rx_run (lit (x # xs)) (c # cs) \<noteq> []" using rx_run_lit_Cons by blast
    with Cons show ?thesis by blast
  qed
qed

lemma py_in_lower_Cons:
  assumes "py_in (x # xs) (py_lower (c # cs))" and "x \<in> {101, 114, 111}"
  shows "prefix (x # xs) (py_lower (c # cs)) \<or> py_in (x # xs) (py_lower cs)"
  using assms by (auto simp: py_lower_def lower_cp_def)

lemma py_in_lower_search:
  assumes "x \<in> {101, 114, 111}" "set xs \<subseteq> {101, 114, 111}"
  shows "py_in (x # xs) (py_lower s) \<Longrightarrow> re_search (lit (x # xs)) s \<noteq> None"
proof (induction s)
  case Nil
  then show ?case by (simp add: py_lower_def)
next
  case (Cons c cs)
  from py_in_lower_Cons[OF Cons.prems assms(1)]
  show ?case
  proof
    assume "prefix (x # xs) (py_lower (c # cs))"
    with assms have "rx_run (lit (x # xs)) (c # cs) \<noteq> []"
      by (intro prefix_lower_run) auto
    then show ?thesis by (rule re_search_here)
  next
    assume "py_in (x # xs) (py_lower cs)"
    with Cons.IH have "re_search (lit (x # xs)) cs \<noteq> None" .
    then show ?thesis by (auto split: option.splits)
  qed
qed

lemma py_in_prefix: "prefix p q \<Longrightarrow> py_in q s \<Longrightarrow> py_in p s"
  by (induction s) (auto intro: prefix_order.trans)

lemma erro_is_failure_pattern: "lit (U ''erro'') \<in> set failure_patterns"
  by (simp add: failure_patterns_def)

lemma erro_in_lower_is_failure:
  assumes "py_in (U ''erro'') (py_lower t)"
  shows "matches_any failure_patterns t"
proof -
  from assms have "re_search (lit (U ''erro'')) t \<noteq> None"
    unfolding U_erro by (intro py_in_lower_search) auto
  with erro_is_failure_pattern show ?thesis
    unfolding matches_any_iff by blast
qed

lemma error_in_lower_is_failure:
  assumes "py_in (U ''error'') (py_lower t)"
  shows "matches_any failure_patterns t"
proof -
  have "prefix (U ''erro'') (U ''error'')" by (simp add: U_erro)
  from py_in_prefix[OF this assms] show ?thesis by (rule erro_in_lower_is_failure)
qed

text \<open>
  Claim C1. Whenever a success pattern matches at some position of the text (after any
  prefix \<open>pre\<close>, whatever else the text holds before or after), \<open>determine_status\<close>
  answers OK: the success table is searched first and its first hit decides. Explicit
  failure markers in the same text, before or after the success marker, do not change
  this.
\<close>

theorem success_precedence:
  "(p \<in> set success_patterns \<and> rx_run p s \<noteq> [] \<longrightarrow> determine_status (pre @ s) = ''OK'')
   \<and> determine_status (U ''Finalizado sem erros'' @ [0x0A] @ U ''Error: timeout'') = ''OK''
   \<and> determine_status (U ''Error: timeout'' @ [0x0A] @ U ''Finalizado sem erros'') = ''OK''"
proof (intro conjI impI)
  assume "p \<in> set success_patterns \<and> rx_run p s \<noteq> []"
  then have "matches_any success_patterns (pre @ s)" by (blast intro: matches_anyI)
  then show "determine_status (pre @ s) = ''OK''" by (simp add: determine_status_def)
next
  show "determine_status (U ''Finalizado sem erros'' @ [0x0A] @ U ''Error: timeout'') = ''OK''"
    by (simp add: ev)
next
  show "determine_status (U ''Error: timeout'' @ [0x0A] @ U ''Finalizado sem erros'') = ''OK''"
    by (simp add: ev)
qed

text \<open>The premise of C1 at a concrete text that also holds two failure markers.\<close>

theorem success_precedence_witness:
  "lit (U ''Finalizado sem erros'') \<in> set success_patterns
   \<and> rx_run (lit (U ''Finalizado sem erros'')) (U ''FINALIZADO SEM ERROS. Exception: x'') \<noteq> []
   \<and> determine_status (U ''Erro: y '' @ U ''FINALIZADO SEM ERROS. Exception: x'') = ''OK''"
proof -
  have a: "lit (U ''Finalizado sem erros'') \<in> set success_patterns"
    by (simp add: success_patterns_def)
  have b: "rx_run (lit (U ''Finalizado sem erros'')) (U ''FINALIZADO SEM ERROS. Exception: x'') \<noteq> []"
    by (simp add: ev)
  from a b success_precedence[of "lit (U ''Finalizado sem erros'')" "U ''FINALIZADO SEM ERROS. Exception: x''" "U ''Erro: y ''"]
  show ?thesis by blast
qed

text \<open>
  Claim C2. \<open>determine_status\<close> is a total function of the text (every search it runs
  is a structural recursion over the text) and its value is one of the three literals
  OK, FAIL, PENDING.
\<close>

theorem status_total:
  "determine_status t \<in> {''OK'', ''FAIL'', ''PENDING''}"
  by (simp add: determine_status_def Let_def)

text \<open>
  Claim C3. For a text in which no success, failure or pending pattern is found, the
  status is OK when neither \<open>erro\<close> nor \<open>error\<close> occurs in the lowercased text, and
  FAIL otherwise; the empty text has status OK.
\<close>

theorem fallback_rule:
  "(\<not> matches_any success_patterns t \<and> \<not> matches_any failure_patterns t
      \<and> \<not> matches_any pending_patterns t
    \<longrightarrow> determine_status t =
        (if \<not> py_in (U ''erro'') (py_lower t) \<and> \<not> py_in (U ''error'') (py_lower t)
         then ''OK'' else ''FAIL''))
   \<and> determine_status [] = ''OK''"
proof (intro conjI impI)
  show "determine_status [] = ''OK''" by (simp add: ev)
qed (simp add: determine_status_def Let_def)

text \<open>
  Claim C4. In a text without success marker, a failure pattern matching at any position
  gives FAIL, also when a pending marker is present (the failure table is searched
  before the pending table). In a text without success marker and without failure
  marker, a pending pattern matching at any position gives PENDING; the marker
  \<open>Processando\<close> is one of them. The text \<open>Erro: falha na validacao\<close> (written with
  c-cedilla and a-tilde) alone is FAIL, and the text \<open>Processando\<close> alone is PENDING.
\<close>

theorem failure_before_pending:
  "(\<not> matches_any success_patterns (pre @ s) \<and> p \<in> set failure_patterns \<and> rx_run p s \<noteq> []
      \<longrightarrow> determine_status (pre @ s) = ''FAIL'')
   \<and> (\<not> matches_any success_patterns (pre @ s) \<and> \<not> matches_any failure_patterns (pre @ s)
        \<and> q \<in> set pending_patterns \<and> rx_run q s \<noteq> []
      \<longrightarrow> determine_status (pre @ s) = ''PENDING'')
   \<and> lit (U ''Processando'') \<in> set pending_patterns
   \<and> determine_status (U ''Erro: falha na valida'' @ [0xE7, 0xE3] @ U ''o'') = ''FAIL''
   \<and> determine_status (U ''Processando... Falha: disco'') = ''FAIL''
   \<and> determine_status (U ''Processando'') = ''PENDING''"
proof (intro conjI impI)
  assume a: "\<not> matches_any success_patterns (pre @ s) \<and> p \<in> set failure_patterns \<and> rx_run p s \<noteq> []"
  then have "matches_any failure_patterns (pre @ s)" by (blast intro: matches_anyI)
  with a show "determine_status (pre @ s) = ''FAIL''" by (simp add: determine_status_def)
next
  assume b: "\<not> matches_any success_patterns (pre @ s) \<and> \<not> matches_any failure_patterns (pre @ s)
        \<and> q \<in> set pending_patterns \<and> rx_run q s \<noteq> []"
  then have "matches_any pending_patterns (pre @ s)" by (blast intro: matches_anyI)
  with b show "determine_status (pre @ s) = ''PENDING''" by (simp add: determine_status_def)
next
  show "lit (U ''Processando'') \<in> set pending_patterns" by (simp add: pending_patterns_def)
qed (simp_all add: ev)

text \<open>
  Claim C10. A text whose lowercase form holds \<open>erro\<close> or \<open>error\<close> is already caught
  by the failure pattern \<open>erro\<close>, so a text that matches none of the three tables has
  status OK: the last FAIL of \<open>determine_status\<close> is never reached.
\<close>

theorem fallback_fail_unreachable:
  "(py_in (U ''erro'') (py_lower t) \<or> py_in (U ''error'') (py_lower t)
      \<longrightarrow> matches_any failure_patterns t)
   \<and> (\<not> matches_any success_patterns t \<and> \<not> matches_any failure_patterns t
        \<and> \<not> matches_any pending_patterns t
      \<longrightarrow> determine_status t = ''OK'')"
proof (intro conjI impI)
  assume "py_in (U ''erro'') (py_lower t) \<or> py_in (U ''error'') (py_lower t)"
  then show "matches_any failure_patterns t"
    using erro_in_lower_is_failure error_in_lower_is_failure by blast
next
  assume a: "\<not> matches_any success_patterns t \<and> \<not> matches_any failure_patterns t
        \<and> \<not> matches_any pending_patterns t"
  then have "\<not> py_in (U ''erro'') (py_lower t)" "\<not> py_in (U ''error'') (py_lower t)"
    using erro_in_lower_is_failure error_in_lower_is_failure by blast+
  with a show "determine_status t = ''OK''" by (simp add: determine_status_def)
qed

theorem status_total_witness:
  "determine_status (U ''Aguardando'') \<in> {''OK'', ''FAIL'', ''PENDING''}"
  by (rule status_total)

theorem fallback_rule_witness:
  "\<not> matches_any success_patterns (U ''tudo certo'')
   \<and> \<not> matches_any failure_patterns (U ''tudo certo'')
   \<and> \<not> matches_any pending_patterns (U ''tudo certo'')
   \<and> determine_status (U ''tudo certo'') = ''OK''"
proof -
  have a: "\<not> matches_any success_patterns (U ''tudo certo'')" by (simp add: ev)
  have b: "\<not> matches_any failure_patterns (U ''tudo certo'')" by (simp add: ev)
  have c: "\<not> matches_any pending_patterns (U ''tudo certo'')" by (simp add: ev)
  have d: "\<not> py_in (U ''erro'') (py_lower (U ''tudo certo''))
           \<and> \<not> py_in (U ''error'') (py_lower (U ''tudo certo''))" by (simp add: ev)
  from a b c d fallback_rule[of "U ''tudo certo''"] show ?thesis by simp
qed

theorem failure_before_pending_witness:
  "\<not> matches_any success_patterns (U ''Iniciando... '' @ U ''TIMEOUT na conexao'')
   \<and> lit (U ''Timeout'') \<in> set failure_patterns
   \<and> rx_run (lit (U ''Timeout'')) (U ''TIMEOUT na conexao'') \<noteq> []
   \<and> determine_status (U ''Iniciando... '' @ U ''TIMEOUT na conexao'') = ''FAIL''
   \<and> \<not> matches_any success_patterns (U ''Job 7: '' @ U ''PROCESSANDO lote 3'')
   \<and> \<not> matches_any failure_patterns (U ''Job 7: '' @ U ''PROCESSANDO lote 3'')
   \<and> lit (U ''Processando'') \<in> set pending_patterns
   \<and> rx_run (lit (U ''Processando'')) (U ''PROCESSANDO lote 3'') \<noteq> []
   \<and> determine_status (U ''Job 7: '' @ U ''PROCESSANDO lote 3'') = ''PENDING''"
proof -
  have a: "\<not> matches_any success_patterns (U ''Iniciando... '' @ U ''TIMEOUT na conexao'')"
    by (simp add: ev)
  have b: "lit (U ''Timeout'') \<in> set failure_patterns" by (simp add: failure_patterns_def)
  have c: "rx_run (lit (U ''Timeout'')) (U ''TIMEOUT na conexao'') \<noteq> []" by (simp add: ev)
  from a b c failure_before_pending[of "U ''Iniciando... ''" "U ''TIMEOUT na conexao''" "lit (U ''Timeout'')"]
  have d: "determine_status (U ''Iniciando... '' @ U ''TIMEOUT na conexao'') = ''FAIL''"
    by blast
  have e: "\<not> matches_any success_patterns (U ''Job 7: '' @ U ''PROCESSANDO lote 3'')"
    by (simp add: ev)
  have f: "\<not> matches_any failure_patterns (U ''Job 7: '' @ U ''PROCESSANDO lote 3'')"
    by (simp add: ev)
  have g: "lit (U ''Processando'') \<in> set pending_patterns" by (simp add: pending_patterns_def)
  have h: "rx_run (lit (U ''Processando'')) (U ''PROCESSANDO lote 3'') \<noteq> []" by (simp add: ev)
  from e f g h failure_before_pending[of "U ''Job 7: ''" "U ''PROCESSANDO lote 3''" _ "lit (U ''Processando'')"]
  have i: "determine_status (U ''Job 7: '' @ U ''PROCESSANDO lote 3'') = ''PENDING''"
    by blast
  from a b c d e f g h i show ?thesis by blast
qed

theorem fallback_fail_unreachable_witness:
  "py_in (U ''erro'') (py_lower (U ''Sem ERROS''))
   \<and> matches_any failure_patterns (U ''Sem ERROS'')
   \<and> \<not> matches_any success_patterns (U ''tudo certo'')
   \<and> \<not> matches_any failure_patterns (U ''tudo certo'')
   \<and> \<not> matches_any pending_patterns (U ''tudo certo'')
   \<and> determine_status (U ''tudo certo'') = ''OK''"
proof -
  have e: "py_in (U ''erro'') (py_lower (U ''Sem ERROS''))" by (simp add: ev)
  have a: "\<not> matches_any success_patterns (U ''tudo certo'')" by (simp add: ev)
  have b: "\<not> matches_any failure_patterns (U ''tudo certo'')" by (simp add: ev)
  have c: "\<not> matches_any pending_patterns (U ''tudo certo'')" by (simp add: ev)
  from e fallback_fail_unreachable[of "U ''Sem ERROS''"]
  have f: "matches_any failure_patterns (U ''Sem ERROS'')" by blast
  from a b c fallback_fail_unreachable[of "U ''tudo certo''"]
  have g: "determine_status (U ''tudo certo'') = ''OK''" by blast
  from e f a b c g show ?thesis by blast
qed

subsection \<open>Evaluating the matcher step by step\<close>

text \<open>
  The same equation as the second one of \<open>rx_run\<close>, with the results of the first
  element taken apart before the rest of the pattern is run: the form under which a
  long text is evaluated.
\<close>

lemma rx_run_step:
  "rx_run (r # rs) s =
     (case rx_elem r s of
        [] \<Rightarrow> []
      | x # xs \<Rightarrow>
          map (\<lambda>q. (fst x # fst q, snd q)) (rx_run rs (snd x))
          @ concat (map (\<lambda>(m, s'). map (\<lambda>(ms, s''). (m # ms, s'')) (rx_run rs s')) xs))"
  by (cases "rx_elem r s") (auto simp: case_prod_beta)

lemmas ev_date = is_leap_def days_in_month_def new_datetime_def pad2_def pad4_def strftime_def
  words_def a_weekday_def a_month_def am_pm_def re_a_def re_b_def re_p_def re_d_def re_I_def
  re_m_def re_M_def re_S_def re_Y_def re_ws_def format_1_def format_2_def group_def py_int_def
  hour_12_def strptime_1_def strptime_2_def parse_execution_date_def header_1_def header_2_def

subsection \<open>The execution date\<close>

lemma header_starts_with_equals:
  "c \<noteq> 0x3D \<Longrightarrow> re_match execution_header_pattern (c # cs) = None"
  by (simp add: re_match_def execution_header_pattern_def lit_def U_def lit_ci_def
      uni_iscased_def uni_tolower_def uni_toupper_def)

lemma header_search_skip:
  "0x3D \<notin> set pre \<Longrightarrow> s \<noteq> []
   \<Longrightarrow> re_search execution_header_pattern (pre @ s) = re_search execution_header_pattern s"
  by (induction pre) (auto simp: header_starts_with_equals)

lemma parse_skip:
  "0x3D \<notin> set pre \<Longrightarrow> s \<noteq> [] \<Longrightarrow> parse_execution_date (pre @ s) = parse_execution_date s"
  by (simp add: parse_execution_date_def header_search_skip)

lemma parse_header_1:
  "parse_execution_date (header_1 @ post) = Some (U ''2025-08-20 09:23:03'')"
  by (simp add: ev ev_date rx_run_step del: rx_run.simps(2))

lemma parse_header_2:
  "parse_execution_date (header_2 @ post) = Some (U ''2025-08-20 09:23:06'')"
  by (simp add: ev ev_date rx_run_step del: rx_run.simps(2))

lemma header_nonempty: "header_1 @ post \<noteq> []" "header_2 @ post \<noteq> []"
  by (simp_all add: header_1_def header_2_def U_def)










text \<open>
  Claim C6, as stated, at the date string without the header around it: no timestamp. The
  same holds for the line of the sample log that begins with this date.
\<close>

theorem bare_date_counterexample:
  "parse_execution_date (U ''8/20/2025 9:23:06 AM'') = None"
  by (simp add: ev ev_date rx_run_step del: rx_run.simps(2))

text \<open>
  Claim C6, amended. When the date \<open>8/20/2025 9:23:06 AM\<close> is the labelled date of the
  log's first execution header, the execution date is \<open>2025-08-20 09:23:06\<close>: the first
  grammar fails on it and the second reads it. A text without execution header has no
  execution date. With a header whose date the first grammar cannot read (after the
  offset token is removed), the result is what the second grammar makes of the date as
  the header has it, offset token included; when that fails too there is no execution
  date, and nothing is raised.
\<close>

theorem grammar_2_in_header:
  "(0x3D \<notin> set pre \<longrightarrow>
      parse_execution_date (pre @ header_2 @ post) = Some (U ''2025-08-20 09:23:06''))
   \<and> strptime_1 (replace_by_empty (U '' -03'') (U ''8/20/2025 9:23:06 AM'')) = None
   \<and> strptime_2 (U ''8/20/2025 9:23:06 AM'')
       = Some \<lparr>dt_year = 2025, dt_month = 8, dt_day = 20,
               dt_hour = 9, dt_minute = 23, dt_second = 6\<rparr>
   \<and> (re_search execution_header_pattern t = None \<longrightarrow> parse_execution_date t = None)
   \<and> (re_search execution_header_pattern t = Some (groups, rest)
        \<and> strptime_1 (replace_by_empty (U '' -03'') (py_strip (group 14 groups))) = None
      \<longrightarrow> parse_execution_date t
            = map_option strftime (strptime_2 (py_strip (group 14 groups))))
   \<and> parse_execution_date
        (U ''=== Execu'' @ [0xE7, 0xE3] @ U ''o: 8/20/2025 9:23:06 -03 AM ==='') = None"
proof (intro conjI impI)
  assume a: "0x3D \<notin> set pre"
  show "parse_execution_date (pre @ header_2 @ post) = Some (U ''2025-08-20 09:23:06'')"
    using parse_skip[OF a header_nonempty(2), of post] parse_header_2[of post] by simp
next
  show "strptime_1 (replace_by_empty (U '' -03'') (U ''8/20/2025 9:23:06 AM'')) = None"
    by (simp add: ev ev_date rx_run_step del: rx_run.simps(2))
next
  show "strptime_2 (U ''8/20/2025 9:23:06 AM'')
       = Some \<lparr>dt_year = 2025, dt_month = 8, dt_day = 20,
               dt_hour = 9, dt_minute = 23, dt_second = 6\<rparr>"
    by (simp add: ev ev_date rx_run_step del: rx_run.simps(2))
next
  assume "re_search execution_header_pattern t = None"
  then show "parse_execution_date t = None" by (simp add: parse_execution_date_def)
next
  assume "re_search execution_header_pattern t = Some (groups, rest)
        \<and> strptime_1 (replace_by_empty (U '' -03'') (py_strip (group 14 groups))) = None"
  then show "parse_execution_date t
            = map_option strftime (strptime_2 (py_strip (group 14 groups)))"
    by (simp add: parse_execution_date_def Let_def split: option.splits)
next
  show "parse_execution_date
        (U ''=== Execu'' @ [0xE7, 0xE3] @ U ''o: 8/20/2025 9:23:06 -03 AM ==='') = None"
    by (simp add: ev ev_date rx_run_step del: rx_run.simps(2))
qed

text \<open>
  The premises of the amended C6: a header with the date after a first line; a text
  without header; and a header whose date neither grammar reads.
\<close>

theorem grammar_2_in_header_witness:
  "0x3D \<notin> set (U ''job C1'' @ [0x0A])
   \<and> parse_execution_date ((U ''job C1'' @ [0x0A]) @ header_2 @ [])
       = Some (U ''2025-08-20 09:23:06'')
   \<and> re_search execution_header_pattern (U ''8/20/2025 9:23:06 AM - Obtendo pedidos'') = None
   \<and> parse_execution_date (U ''8/20/2025 9:23:06 AM - Obtendo pedidos'') = None
   \<and> re_search execution_header_pattern (U ''=== Execu'' @ [0xE7, 0xE3] @ U ''o: 31/12 ==='')
       = Some (map (\<lambda>c. [c]) (U ''=== Execu'' @ [0xE7, 0xE3] @ U ''o: '') @ [U ''31/12'']
               @ map (\<lambda>c. [c]) (U '' ===''), [])
   \<and> parse_execution_date (U ''=== Execu'' @ [0xE7, 0xE3] @ U ''o: 31/12 ==='') = None"
proof -
  let ?h = "U ''=== Execu'' @ [0xE7, 0xE3] @ U ''o: 31/12 ===''"
  let ?g = "map (\<lambda>c. [c]) (U ''=== Execu'' @ [0xE7, 0xE3] @ U ''o: '') @ [U ''31/12'']
               @ map (\<lambda>c. [c]) (U '' ==='')"
  have a: "0x3D \<notin> set (U ''job C1'' @ [0x0A])" by (simp add: U_def)
  from a grammar_2_in_header[of "U ''job C1'' @ [0x0A]" "[]"]
  have b: "parse_execution_date ((U ''job C1'' @ [0x0A]) @ header_2 @ [])
       = Some (U ''2025-08-20 09:23:06'')" by blast
  have c: "re_search execution_header_pattern (U ''8/20/2025 9:23:06 AM - Obtendo pedidos'') = None"
    by (simp add: ev rx_run_step del: rx_run.simps(2))
  from c grammar_2_in_header[of _ _ "U ''8/20/2025 9:23:06 AM - Obtendo pedidos''"]
  have d: "parse_execution_date (U ''8/20/2025 9:23:06 AM - Obtendo pedidos'') = None" by blast
  have e: "re_search execution_header_pattern ?h = Some (?g, [])"
    by (simp add: ev rx_run_step del: rx_run.simps(2))
  have f: "strptime_1 (replace_by_empty (U '' -03'') (py_strip (group 14 ?g))) = None"
    by (simp add: ev ev_date rx_run_step del: rx_run.simps(2))
  have g: "strptime_2 (py_strip (group 14 ?g)) = None"
    by (simp add: ev ev_date rx_run_step del: rx_run.simps(2))
  from e f grammar_2_in_header[of _ _ ?h ?g "[]"]
  have "parse_execution_date ?h = map_option strftime (strptime_2 (py_strip (group 14 ?g)))"
    by blast
  with g have h: "parse_execution_date ?h = None" by simp
  from a b c d e h show ?thesis by blast
qed

subsection \<open>The message\<close>

lemma message_extract: "message (extract_key_info t) = first_message (split_lines t)"
  by (simp add: extract_key_info_def)

lemma first_message_find:
  "first_message ls = map_option shorten (find qualifies (map py_strip ls))"
  by (induction ls) (auto simp: qualifies_def shorten_def startswith_def Let_def)

lemma split_lines_nonempty: "split_lines t \<noteq> []"
  by (induction t) (auto split: list.splits)

lemma join_split_lines: "join_lines (split_lines t) = t"
proof (induction t)
  case Nil
  show ?case by simp
next
  case (Cons c cs)
  show ?case
  proof (cases "c = 0x0A")
    case True
    with Cons split_lines_nonempty[of cs] show ?thesis
      by (cases "split_lines cs") auto
  next
    case False
    with Cons split_lines_nonempty[of cs] show ?thesis
      by (cases "split_lines cs"; cases "tl (split_lines cs)") auto
  qed
qed

lemma split_lines_no_feed: "l \<in> set (split_lines t) \<Longrightarrow> 0x0A \<notin> set l"
  by (induction t arbitrary: l) (auto split: if_splits list.splits)

lemma length_shorten: "length (shorten l) \<le> 103"
  by (simp add: shorten_def U_def)

text \<open>
  Claim C7. The lines are the pieces of the text between line feeds, in their order, and
  each is trimmed before anything else is done with it. The message is made from the
  first trimmed line that is not empty, does not begin with \<open>===\<close> or with the noise
  prefix, and is longer than ten characters: that line itself when it has at most a
  hundred characters, its first hundred characters and three dots when it is longer, so
  never more than 103 characters. There is no message exactly when no line qualifies.
\<close>

theorem message_rule:
  "join_lines (split_lines t) = t
   \<and> list_all (\<lambda>l. 0x0A \<notin> set l) (split_lines t)
   \<and> message (extract_key_info t)
       = map_option shorten (find qualifies (map py_strip (split_lines t)))
   \<and> (message (extract_key_info t) = Some m \<longrightarrow> length m \<le> 103)
   \<and> (message (extract_key_info t) = None
        \<longleftrightarrow> list_all (\<lambda>l. \<not> qualifies (py_strip l)) (split_lines t))
   \<and> shorten l = (if length l \<le> 100 then l else take 100 l @ U ''...'')
   \<and> (100 < length l \<longrightarrow> length (shorten l) = 103)"
proof (intro conjI impI)
  show "join_lines (split_lines t) = t" by (rule join_split_lines)
next
  show "list_all (\<lambda>l. 0x0A \<notin> set l) (split_lines t)"
    using split_lines_no_feed by (auto simp: list_all_iff)
next
  show eq: "message (extract_key_info t)
       = map_option shorten (find qualifies (map py_strip (split_lines t)))"
    by (simp add: message_extract first_message_find)
  show "message (extract_key_info t) = None
        \<longleftrightarrow> list_all (\<lambda>l. \<not> qualifies (py_strip l)) (split_lines t)"
    unfolding eq by (auto simp: find_None_iff list_all_iff)
  assume "message (extract_key_info t) = Some m"
  with eq have "map_option shorten (find qualifies (map py_strip (split_lines t))) = Some m"
    by simp
  then obtain x where "m = shorten x" by auto
  then show "length m \<le> 103" by (simp add: length_shorten)
next
  show "shorten l = (if length l \<le> 100 then l else take 100 l @ U ''...'')"
    by (simp add: shorten_def)
next
  assume "100 < length l"
  then show "length (shorten l) = 103" by (simp add: shorten_def U_def)
qed

text \<open>
  C7 at a log of six lines: a header, a blank line, a noise line, a short line, an
  indented line of 19 characters and another long line.
\<close>

theorem message_rule_witness:
  "message (extract_key_info
     (U ''=== x ==='' @ [0x0A] @ U ''   '' @ [0x0A] @ U ''lsfnjdn5/3/2024 9:28:21 AM''
      @ [0x0A] @ U ''short'' @ [0x0A] @ U ''  IdCliente: 37997466  '' @ [0x0A]
      @ U ''other long line here''))
     = Some (U ''IdCliente: 37997466'')
   \<and> length (U ''IdCliente: 37997466'') \<le> 103
   \<and> message (extract_key_info (U ''short'' @ [0x0A] @ U ''=== a long decoration ===''))
       = None"
proof -
  let ?t = "U ''=== x ==='' @ [0x0A] @ U ''   '' @ [0x0A] @ U ''lsfnjdn5/3/2024 9:28:21 AM''
      @ [0x0A] @ U ''short'' @ [0x0A] @ U ''  IdCliente: 37997466  '' @ [0x0A]
      @ U ''other long line here''"
  let ?u = "U ''short'' @ [0x0A] @ U ''=== a long decoration ===''"
  have a: "map_option shorten (find qualifies (map py_strip (split_lines ?t)))
           = Some (U ''IdCliente: 37997466'')"
    by (simp add: U_def py_strip_def uni_isspace_def qualifies_def shorten_def)
  with message_rule[of ?t] have b: "message (extract_key_info ?t) = Some (U ''IdCliente: 37997466'')"
    by simp
  from b message_rule[of ?t "U ''IdCliente: 37997466''"]
  have c: "length (U ''IdCliente: 37997466'') \<le> 103" by blast
  have d: "list_all (\<lambda>l. \<not> qualifies (py_strip l)) (split_lines ?u)"
    by (simp add: U_def py_strip_def uni_isspace_def qualifies_def)
  with message_rule[of ?u] have e: "message (extract_key_info ?u) = None" by blast
  from b c e show ?thesis by blast
qed

subsection \<open>The tables\<close>

lemma automations_insert_log: "automations (insert_log d l) = automations d"
  by (cases l) (simp add: insert_log_def)

lemma automations_foldl_insert_log: "automations (foldl insert_log d ls) = automations d"
  by (induction ls arbitrary: d) (simp_all add: automations_insert_log)

lemma lookup_insert_or_replace:
  "automations (insert_or_replace d (n, sched, behav)) name =
     (if name = n
      then Some \<lparr>schedule = sched, behavior = behav, last_status = ''NONE'', last_run = None\<rparr>
      else automations d name)"
  by (simp add: insert_or_replace_def)

lemma lookup_update_if_newer:
  "automations (update_if_newer d (n, ts, st, msg)) name =
     (if name = n
      then (case automations d name of
              None \<Rightarrow> None
            | Some row \<Rightarrow>
                Some (if (case last_run row of None \<Rightarrow> True | Some stored \<Rightarrow> stored < ts)
                      then row\<lparr>last_status := st, last_run := Some ts\<rparr> else row))
      else automations d name)"
  by (simp add: update_if_newer_def split: option.splits)

text \<open>
  The guarded update of \<open>seed_mock_data\<close> never moves a stored last run backwards.
\<close>

lemma update_if_newer_monotone:
  assumes "automations d name = Some row" and "last_run row = Some stored"
  shows "\<exists>row' later. automations (update_if_newer d l) name = Some row'
           \<and> last_run row' = Some later \<and> stored \<le> later"
  using assms
  by (cases l) (auto simp: update_if_newer_def split: option.splits)

text \<open>The update of \<open>add_real_log\<close> stores the timestamp of the log, whatever was stored.\<close>

lemma add_real_log_overwrites:
  assumes "automations d name = Some row" and "parse_execution_date log_content = Some ts"
    and "ts \<noteq> []"
  shows "map_option last_run (automations (snd (add_real_log now d name log_content)) name)
           = Some (Some ts)"
  using assms by (simp add: add_real_log_def extract_key_info_def Let_def)

lemma registry_C1_row:
  "automations registry_C1 (U ''C1'')
     = Some \<lparr>schedule = U ''0 8 * * *'', behavior = U ''Import de Vendas'',
              last_status = ''OK'', last_run = Some (U ''2025-08-29 08:00:00'')\<rparr>"
  by (simp add: registry_C1_def Let_def automations_insert_log lookup_update_if_newer
      lookup_insert_or_replace empty_db_def)

lemma registry_C1_other: "automations registry_C1 (U ''ZZ9'') = None"
  by (simp add: registry_C1_def Let_def automations_insert_log lookup_update_if_newer
      lookup_insert_or_replace empty_db_def
      U_def)

text \<open>
  Claim C8, at a concrete submission. In \<open>registry_C1\<close> the job \<open>C1\<close> has the last run
  \<open>2025-08-29 08:00:00\<close>. Submitting for \<open>C1\<close> a log with the execution header
  \<open>=== Execucao: Wed Aug 20 09:23:03 AM -03 2025 ===\<close> (with c-cedilla and a-tilde)
  stores the last run \<open>2025-08-20 09:23:03\<close>, which is older: the stored last run has
  moved backwards.
\<close>

theorem last_run_moves_backwards:
  "map_option last_run (automations registry_C1 (U ''C1''))
     = Some (Some (U ''2025-08-29 08:00:00''))
   \<and> map_option last_run
        (automations
           (snd (add_real_log (U ''2025-09-01 12:00:00'') registry_C1 (U ''C1'')
                   header_1))
           (U ''C1''))
       = Some (Some (U ''2025-08-20 09:23:03''))
   \<and> U ''2025-08-20 09:23:03'' < U ''2025-08-29 08:00:00''"
proof (intro conjI)
  show a: "map_option last_run (automations registry_C1 (U ''C1''))
     = Some (Some (U ''2025-08-29 08:00:00''))"
    by (simp add: registry_C1_row)
  obtain row where row: "automations registry_C1 (U ''C1'') = Some row"
    using registry_C1_row by blast
  have "parse_execution_date header_1 = Some (U ''2025-08-20 09:23:03'')"
    using parse_header_1[of "[]"] by simp
  moreover have "U ''2025-08-20 09:23:03'' \<noteq> []" by (simp add: U_def)
  ultimately show "map_option last_run
        (automations
           (snd (add_real_log (U ''2025-09-01 12:00:00'') registry_C1 (U ''C1'')
                   header_1))
           (U ''C1''))
       = Some (Some (U ''2025-08-20 09:23:03''))"
    using row by (rule add_real_log_overwrites[rotated])
  show "U ''2025-08-20 09:23:03'' < U ''2025-08-29 08:00:00''"
    by (simp add: U_def)
qed

text \<open>
  Claim C9. Submitting a log for a name that is not in the table of jobs is reported as
  not found and returns both tables as they were: no log row is added and no job is
  changed. That outcome is reported for no registered name; a submission for a registered
  name is processed and adds exactly one log row.
\<close>

theorem unknown_job_untouched:
  "(automations d name = None \<longrightarrow> add_real_log now d name log_content = (Not_Found, d))
   \<and> (fst (add_real_log now d name log_content) = Not_Found \<longleftrightarrow> automations d name = None)
   \<and> (automations d name \<noteq> None \<longrightarrow>
        fst (add_real_log now d name log_content) = Processed
        \<and> length (logs (snd (add_real_log now d name log_content))) = Suc (length (logs d)))"
  by (auto simp: add_real_log_def Let_def split: option.splits)

text \<open>
  C9 at the tables of \<open>registry_C1\<close>: \<open>ZZ9\<close> is not a job there, and \<open>C1\<close> is.
\<close>

theorem unknown_job_untouched_witness:
  "automations registry_C1 (U ''ZZ9'') = None
   \<and> add_real_log (U ''2025-09-01 12:00:00'') registry_C1 (U ''ZZ9'') header_1
       = (Not_Found, registry_C1)
   \<and> automations registry_C1 (U ''C1'') \<noteq> None
   \<and> fst (add_real_log (U ''2025-09-01 12:00:00'') registry_C1 (U ''C1'') header_1)
       = Processed"
proof -
  have a: "automations registry_C1 (U ''ZZ9'') = None" by (rule registry_C1_other)
  have b: "automations registry_C1 (U ''C1'') \<noteq> None"
    by (simp add: registry_C1_row)
  from a unknown_job_untouched[of registry_C1 "U ''ZZ9''"
      "U ''2025-09-01 12:00:00''" header_1]
  have c: "add_real_log (U ''2025-09-01 12:00:00'') registry_C1 (U ''ZZ9'') header_1
       = (Not_Found, registry_C1)" by blast
  from b unknown_job_untouched[of registry_C1 "U ''C1''"
      "U ''2025-09-01 12:00:00''" header_1]
  have d: "fst (add_real_log (U ''2025-09-01 12:00:00'') registry_C1 (U ''C1'')
             header_1) = Processed" by blast
  from a b c d show ?thesis by blast
qed

end
